theory Spec2Isabelle
  imports Main "HOL-Library.Word" "HOL-Library.Sublist"
begin

unbundle bit_operations_syntax

section \<open>Snippet synthesis of the TypeScript worker\<close>

text \<open>
  The development embeds the language-feature part of the worker
  (\<^verbatim>\<open>getCompletionsAtPosition\<close> and \<^verbatim>\<open>getCompletionEntryDetailsAndSnippet\<close> with its
  local functions \<^verbatim>\<open>renderDefaultVal\<close> and \<^verbatim>\<open>renderParameter\<close>). The sources hold two
  revisions of the worker; the embedding follows the later one, which filters the
  completions, reads quoted examples and writes placeholders as tab stops.

  Strings are lists of code units; only code units below 256 are representable, so the
  white space of the source's regular expressions is the part of the ECMAScript classes
  that lies in that range. A value of JavaScript type \<^verbatim>\<open>string | undefined\<close> is a
  \<open>js_string\<close>. The only fault the embedded code can raise by itself is the
  \<^verbatim>\<open>TypeError\<close> of reading a property of \<^verbatim>\<open>undefined\<close>.
\<close>

datatype js_string = Undefined | Str string

datatype error = TypeError

fun truthy :: "js_string \<Rightarrow> bool" where
  "truthy Undefined = False"
| "truthy (Str s) = (s \<noteq> [])"

text \<open>\<^verbatim>\<open>a || b\<close> on values of type \<^verbatim>\<open>string | undefined\<close>.\<close>

definition js_or :: "js_string \<Rightarrow> js_string \<Rightarrow> js_string" where
  "js_or a b = (if truthy a then a else b)"

text \<open>The text a value contributes to a template literal known to hold a string, and to
  \<^verbatim>\<open>Array.prototype.join\<close> (where \<^verbatim>\<open>undefined\<close> contributes the empty string).\<close>

fun js_text :: "js_string \<Rightarrow> string" where
  "js_text Undefined = []"
| "js_text (Str s) = s"

fun join :: "string \<Rightarrow> js_string list \<Rightarrow> string" where
  "join sep [] = []"
| "join sep [x] = js_text x"
| "join sep (x # y # ys) = js_text x @ sep @ join sep (y # ys)"

subsection \<open>Constants of the TypeScript services library\<close>

text \<open>
  The library \<^verbatim>\<open>lib/typescriptServices\<close> is not part of the sources, so the values of its
  enumerations are parameters of the model. Flags are 32-bit integers, as the operator
  \<^verbatim>\<open>&\<close> treats them.
\<close>

type_synonym flags = "32 word"

record ts_services =
  TypeFlags_EnumLiteral :: flags
  TypeFlags_Object :: flags
  TypeFlags_String :: flags
  TypeFlags_Number :: flags
  TypeFlags_Boolean :: flags
  TypeFlags_Void :: flags
  TypeFlags_NumberLike :: flags
  TypeFlags_StringLike :: flags
  TypeFlags_BooleanLike :: flags
  ObjectFlags_Anonymous :: flags
  ObjectFlags_Tuple :: flags
  SyntaxKind_EnumDeclaration :: nat
  SyntaxKind_Identifier :: nat
  ScriptElementKind_interfaceElement :: string
  ScriptElementKind_typeElement :: string
  ScriptElementKind_keyword :: string
  ScriptElementKind_moduleElement :: string

text \<open>A sample assignment of these constants, following a 2.x release of the library. It
  serves the concrete evaluations only; the general theorems hold for every assignment.\<close>

definition ts_sample :: ts_services where
  "ts_sample = \<lparr>
     TypeFlags_EnumLiteral = 256,
     TypeFlags_Object = 32768,
     TypeFlags_String = 2,
     TypeFlags_Number = 4,
     TypeFlags_Boolean = 8,
     TypeFlags_Void = 1024,
     TypeFlags_NumberLike = 340,
     TypeFlags_StringLike = 262178,
     TypeFlags_BooleanLike = 136,
     ObjectFlags_Anonymous = 16,
     ObjectFlags_Tuple = 8,
     SyntaxKind_EnumDeclaration = 229,
     SyntaxKind_Identifier = 70,
     ScriptElementKind_interfaceElement = ''interface'',
     ScriptElementKind_typeElement = ''type'',
     ScriptElementKind_keyword = ''keyword'',
     ScriptElementKind_moduleElement = ''module'' \<rparr>"

text \<open>\<^verbatim>\<open>flags & m\<close> used as a condition.\<close>

definition has :: "flags \<Rightarrow> flags \<Rightarrow> bool" where
  "has f m = (f AND m \<noteq> 0)"

subsection \<open>Snapshots of the checker's data\<close>

text \<open>The name node of an enum member: its syntax kind and its text.\<close>

record property_name =
  name_kind :: nat
  name_text :: string

record enum_member =
  member_name :: property_name

text \<open>A declaration node; \<open>members\<close> is present on enum declarations.\<close>

record declaration_node =
  decl_kind :: nat
  members :: "enum_member list option"

text \<open>The symbol of a type: \<open>declarations\<close> is what \<^verbatim>\<open>getDeclarations()\<close> returns, the
  optional property \<^verbatim>\<open>declarations\<close>.\<close>

record type_symbol =
  symbol_name :: string
  declarations :: "declaration_node list option"

text \<open>A call signature of a parameter's function type: the text that
  \<^verbatim>\<open>buildSignatureDisplay\<close> writes for it and the flags of its return type.\<close>

record function_signature =
  displayPartsStr :: string
  returnType_flags :: flags

record ts_type =
  type_flags :: flags
  objectFlags :: "flags option"
  symbol :: "type_symbol option"
  intrinsicName :: js_string
  getCallSignatures :: "function_signature list option"
  typeToString :: string

text \<open>A parameter symbol: its name, the type the checker reports for it, and its
  documentation comment as text (\<^verbatim>\<open>displayPartsToString\<close> of the comment).\<close>

record parameter =
  param_name :: string
  parameterType :: "ts_type option"
  documentationComment :: string

record signature =
  parameters :: "parameter list"
  minArgumentCount :: nat

text \<open>The value declaration of the completed symbol, with the call signatures of the
  type the checker reports for the symbol at that declaration.\<close>

record value_declaration =
  kind :: nat
  signatures :: "signature list option"

record entry_symbol =
  valueDeclaration :: "value_declaration option"

subsection \<open>String operations\<close>

definition isLineTerminator :: "char \<Rightarrow> bool" where
  "isLineTerminator c = (c = CHR 0x0A \<or> c = CHR 0x0D)"

text \<open>The class \<^verbatim>\<open>\s\<close>, which is also what \<^verbatim>\<open>trim\<close> strips.\<close>

definition isWhiteSpace :: "char \<Rightarrow> bool" where
  "isWhiteSpace c = (c = CHR 0x09 \<or> c = CHR 0x0A \<or> c = CHR 0x0B \<or> c = CHR 0x0C
     \<or> c = CHR 0x0D \<or> c = CHR 0x20 \<or> c = CHR 0xA0)"

text \<open>The class \<^verbatim>\<open>\w\<close>.\<close>

definition isWordChar :: "char \<Rightarrow> bool" where
  "isWordChar c = (let n = (of_char c :: nat) in
     (97 \<le> n \<and> n \<le> 122) \<or> (65 \<le> n \<and> n \<le> 90) \<or> (48 \<le> n \<and> n \<le> 57) \<or> n = 95)"

definition trim :: "string \<Rightarrow> string" where
  "trim s = rev (dropWhile isWhiteSpace (rev (dropWhile isWhiteSpace s)))"

text \<open>\<^verbatim>\<open>s.indexOf(pat)\<close> from position \<open>i\<close> on: the first index at which \<open>pat\<close> occurs,
  or \<open>-1\<close>.\<close>

fun indexOf_from :: "int \<Rightarrow> string \<Rightarrow> string \<Rightarrow> int" where
  "indexOf_from i pat [] = (if pat = [] then i else -1)"
| "indexOf_from i pat (c # cs) =
     (if prefix pat (c # cs) then i else indexOf_from (i + 1) pat cs)"

definition indexOf :: "string \<Rightarrow> string \<Rightarrow> int" where
  "indexOf s pat = indexOf_from 0 pat s"

text \<open>\<^verbatim>\<open>s.lastIndexOf(c)\<close> for a one-character pattern.\<close>

fun lastIndexOf_from :: "int \<Rightarrow> int \<Rightarrow> char \<Rightarrow> string \<Rightarrow> int" where
  "lastIndexOf_from i found c [] = found"
| "lastIndexOf_from i found c (d # ds) =
     lastIndexOf_from (i + 1) (if d = c then i else found) c ds"

definition lastIndexOf :: "string \<Rightarrow> char \<Rightarrow> int" where
  "lastIndexOf s c = lastIndexOf_from 0 (-1) c s"

text \<open>\<^verbatim>\<open>s.substr(0, n)\<close>: empty for a length that is not positive.\<close>

definition substr0 :: "string \<Rightarrow> int \<Rightarrow> string" where
  "substr0 s n = (if n \<le> 0 then [] else take (nat n) s)"

subsection \<open>The regular expressions of \<^verbatim>\<open>renderParameter\<close>\<close>

text \<open>
  \<^verbatim>\<open>/\beg\.?:\s*(.+)/i\<close>. A match is tried at every position from left to right; the
  result is the text of group 1 of the leftmost match. \<open>dotPlus\<close> is the greedy
  \<^verbatim>\<open>(.+)\<close> that ends the pattern; \<open>spacesThenCapture\<close> is \<^verbatim>\<open>\s*(.+)\<close>, where the greedy
  \<^verbatim>\<open>\s*\<close> gives a character back each time the rest of the pattern fails.
\<close>

definition dotPlus :: "string \<Rightarrow> string option" where
  "dotPlus s = (let m = takeWhile (\<lambda>c. \<not> isLineTerminator c) s
                in if m = [] then None else Some m)"

fun spacesThenCapture :: "string \<Rightarrow> string option" where
  "spacesThenCapture [] = dotPlus []"
| "spacesThenCapture (c # cs) =
     (if isWhiteSpace c
      then (case spacesThenCapture cs of Some cap \<Rightarrow> Some cap | None \<Rightarrow> dotPlus (c # cs))
      else dotPlus (c # cs))"

text \<open>\<^verbatim>\<open>:\s*(.+)\<close>\<close>

fun colonThenCapture :: "string \<Rightarrow> string option" where
  "colonThenCapture [] = None"
| "colonThenCapture (c # cs) = (if c = CHR '':'' then spacesThenCapture cs else None)"

text \<open>\<^verbatim>\<open>\.?:\s*(.+)\<close>: the optional period is tried first.\<close>

fun optDotThenColon :: "string \<Rightarrow> string option" where
  "optDotThenColon [] = colonThenCapture []"
| "optDotThenColon (c # cs) =
     (case (if c = CHR ''.'' then colonThenCapture cs else None) of
        Some cap \<Rightarrow> Some cap
      | None \<Rightarrow> colonThenCapture (c # cs))"

text \<open>\<^verbatim>\<open>\b\<close> between the previous character (if any) and the next one (if any).\<close>

definition wordBoundary :: "char option \<Rightarrow> string \<Rightarrow> bool" where
  "wordBoundary prev s =
     ((case prev of None \<Rightarrow> False | Some c \<Rightarrow> isWordChar c)
      \<noteq> (case s of [] \<Rightarrow> False | c # _ \<Rightarrow> isWordChar c))"

text \<open>The whole pattern at one position; \<open>prev\<close> is the character before it.\<close>

fun egAt :: "char option \<Rightarrow> string \<Rightarrow> string option" where
  "egAt prev (e # g # rest) =
     (if wordBoundary prev (e # g # rest)
         \<and> (e = CHR ''e'' \<or> e = CHR ''E'') \<and> (g = CHR ''g'' \<or> g = CHR ''G'')
      then optDotThenColon rest else None)"
| "egAt prev s = None"

fun egExec_from :: "char option \<Rightarrow> string \<Rightarrow> string option" where
  "egExec_from prev [] = egAt prev []"
| "egExec_from prev (c # cs) =
     (case egAt prev (c # cs) of
        Some cap \<Rightarrow> Some cap
      | None \<Rightarrow> egExec_from (Some c) cs)"

text \<open>\<open>paramExamples doc\<close> is \<^verbatim>\<open>paramExamples[1]\<close> when the expression matches
  \<^verbatim>\<open>parameterDoc\<close>, and \<open>None\<close> when \<^verbatim>\<open>exec\<close> returns \<^verbatim>\<open>null\<close>.\<close>

definition paramExamples :: "string \<Rightarrow> string option" where
  "paramExamples doc = egExec_from None doc"

text \<open>
  \<^verbatim>\<open>/(?:"([^"]*)")|(?:'([^']*)')|(?:([^\s,]+))/g\<close>, executed once on a fresh expression
  object. The result holds the groups 1, 2 and 3 of the leftmost match, the alternatives
  being tried in their order at each position.
\<close>

text \<open>A quote \<open>q\<close>, the longest run without \<open>q\<close>, and \<open>q\<close> again.\<close>

fun quoted :: "char \<Rightarrow> string \<Rightarrow> string option" where
  "quoted q [] = None"
| "quoted q (c # cs) =
     (if c = q \<and> dropWhile (\<lambda>d. d \<noteq> q) cs \<noteq> []
      then Some (takeWhile (\<lambda>d. d \<noteq> q) cs) else None)"

definition token :: "string \<Rightarrow> string option" where
  "token s = (let t = takeWhile (\<lambda>c. \<not> isWhiteSpace c \<and> c \<noteq> CHR '','') s
              in if t = [] then None else Some t)"

definition regAt :: "string \<Rightarrow> (js_string \<times> js_string \<times> js_string) option" where
  "regAt s =
     (case quoted (CHR 0x22) s of
        Some v \<Rightarrow> Some (Str v, Undefined, Undefined)
      | None \<Rightarrow>
          (case quoted (CHR 0x27) s of
             Some v \<Rightarrow> Some (Undefined, Str v, Undefined)
           | None \<Rightarrow>
               (case token s of
                  Some t \<Rightarrow> Some (Undefined, Undefined, Str t)
                | None \<Rightarrow> None)))"

fun regExec :: "string \<Rightarrow> (js_string \<times> js_string \<times> js_string) option" where
  "regExec [] = regAt []"
| "regExec (c # cs) =
     (case regAt (c # cs) of Some m \<Rightarrow> Some m | None \<Rightarrow> regExec cs)"

subsection \<open>\<^verbatim>\<open>renderDefaultVal\<close> and \<^verbatim>\<open>renderParameter\<close>\<close>

definition defaultImgLit :: string where
  "defaultImgLit =
     [CHR 0x0A, CHR 0x09] @ ''. . . . .'' @
     [CHR 0x0A, CHR 0x09] @ ''. . . . .'' @
     [CHR 0x0A, CHR 0x09] @ ''. . # . .'' @
     [CHR 0x0A, CHR 0x09] @ ''. . . . .'' @
     [CHR 0x0A, CHR 0x09] @ ''. . . . .'' @
     [CHR 0x0A, CHR 0x09]"

text \<open>The template \<^verbatim>\<open>${1:name}\<close>.\<close>

definition placeholder :: "string \<Rightarrow> string" where
  "placeholder name = ''${1:'' @ name @ ''}''"

definition renderDefaultVal :: "string \<Rightarrow> js_string \<Rightarrow> string" where
  "renderDefaultVal name type =
     (if type = Str ''number'' then ''0''
      else if type = Str ''boolean'' then ''false''
      else if type = Str ''string''
        then (if name = ''leds'' then ''`'' @ defaultImgLit @ ''`'' else [CHR 0x22, CHR 0x22])
      else placeholder name)"

text \<open>
  The first part of \<^verbatim>\<open>renderParameter\<close>, which reads the parameter's documentation:
  \<open>Some v\<close> when the function returns \<open>v\<close> there, \<open>None\<close> when control goes on to the
  classification of the type.
\<close>

definition exampleFromDoc :: "string \<Rightarrow> js_string option" where
  "exampleFromDoc parameterDoc =
     (case paramExamples parameterDoc of
        None \<Rightarrow> None
      | Some group1 \<Rightarrow>
          (case regExec (trim group1) of
             None \<Rightarrow> None
           | Some (m1, m2, m3) \<Rightarrow>
               if truthy (js_or m1 m2)
               then Some (Str ([CHR 0x22] @ js_text (js_or m1 m2) @ [CHR 0x22]))
               else Some m3))"

text \<open>The loop over \<^verbatim>\<open>enumDeclarations\<close>: the first declaration of kind
  \<^verbatim>\<open>EnumDeclaration\<close>.\<close>

fun findEnumDeclaration :: "ts_services \<Rightarrow> declaration_node list \<Rightarrow> declaration_node option" where
  "findEnumDeclaration ts [] = None"
| "findEnumDeclaration ts (d # ds) =
     (if decl_kind d = SyntaxKind_EnumDeclaration ts then Some d
      else findEnumDeclaration ts ds)"

text \<open>The value of the variable \<^verbatim>\<open>enumValue\<close> after the block that computes it. Reading
  \<^verbatim>\<open>enumDeclarations.length\<close> faults when \<^verbatim>\<open>getDeclarations()\<close> returned
  \<^verbatim>\<open>undefined\<close>.\<close>

definition enumValue :: "ts_services \<Rightarrow> ts_type \<Rightarrow> error + js_string" where
  "enumValue ts enumParameter =
     (case symbol enumParameter of
        None \<Rightarrow> Inr Undefined
      | Some sy \<Rightarrow>
          (case declarations sy of
             None \<Rightarrow> Inl TypeError
           | Some enumDeclarations \<Rightarrow>
               (case findEnumDeclaration ts enumDeclarations of
                  None \<Rightarrow> Inr Undefined
                | Some enumDeclaration \<Rightarrow>
                    (case members enumDeclaration of
                       None \<Rightarrow> Inr Undefined
                     | Some [] \<Rightarrow> Inr Undefined
                     | Some (m # ms) \<Rightarrow>
                         if name_kind (member_name m) = SyntaxKind_Identifier ts
                         then Inr (Str (name_text (member_name m)))
                         else Inr Undefined))))"

text \<open>The branch for a type with the flag \<^verbatim>\<open>Object\<close> and the object flag
  \<^verbatim>\<open>Anonymous\<close>.\<close>

definition returnValue :: "ts_services \<Rightarrow> function_signature \<Rightarrow> string" where
  "returnValue ts sg =
     (if has (returnType_flags sg) (TypeFlags_NumberLike ts) then ''return 0;$0''
      else if has (returnType_flags sg) (TypeFlags_StringLike ts)
        then ''return '' @ [CHR 0x22, CHR 0x22] @ '';$0''
      else if has (returnType_flags sg) (TypeFlags_BooleanLike ts) then ''return false;$0''
      else ''$0'')"

definition functionArgument :: "function_signature \<Rightarrow> string" where
  "functionArgument sg =
     substr0 (displayPartsStr sg) (lastIndexOf (displayPartsStr sg) (CHR '':''))"

definition functionLiteral :: "string \<Rightarrow> string \<Rightarrow> string" where
  "functionLiteral args body =
     ''function '' @ args @ '' {'' @ [CHR 0x0A, CHR 0x09] @ body @ [CHR 0x0A] @ ''}''"

definition anonymousFunction :: "ts_services \<Rightarrow> ts_type \<Rightarrow> string" where
  "anonymousFunction ts ty =
     (case getCallSignatures ty of
        Some (sg # sgs) \<Rightarrow> functionLiteral (functionArgument sg) (returnValue ts sg)
      | _ \<Rightarrow> functionLiteral ''()'' ''$0'')"

definition renderParameter :: "ts_services \<Rightarrow> parameter \<Rightarrow> error + js_string" where
  "renderParameter ts p =
     (case exampleFromDoc (documentationComment p) of
        Some v \<Rightarrow> Inr v
      | None \<Rightarrow>
          (case parameterType p of
             None \<Rightarrow> Inr (Str (placeholder (param_name p)))
           | Some ty \<Rightarrow>
               if type_flags ty = 0 then Inr (Str (placeholder (param_name p)))
               else if has (type_flags ty) (TypeFlags_EnumLiteral ts) then
                 (case enumValue ts ty of
                    Inl e \<Rightarrow> Inl e
                  | Inr ev \<Rightarrow>
                      if truthy ev
                      then (case symbol ty of
                              None \<Rightarrow> Inl TypeError
                            | Some sy \<Rightarrow> Inr (Str (symbol_name sy @ ''.'' @ js_text ev)))
                      else Inr (Str (placeholder (param_name p))))
               else if has (type_flags ty) (TypeFlags_Object ts) then
                 (if has (case objectFlags ty of None \<Rightarrow> 0 | Some ofl \<Rightarrow> ofl) (ObjectFlags_Anonymous ts)
                  then Inr (Str (anonymousFunction ts ty))
                  else
                    (let typeString = typeToString ty;
                         bracketIndex = indexOf typeString ''[]''
                     in if has (type_flags ty) (ObjectFlags_Tuple ts)
                           \<or> (bracketIndex \<noteq> -1 \<and> bracketIndex = int (length typeString) - 2)
                        then Inr (Str ''[]'')
                        else Inr (Str (placeholder (param_name p)))))
               else if has (type_flags ty) (TypeFlags_String ts)
                     \<or> has (type_flags ty) (TypeFlags_Number ts)
                     \<or> has (type_flags ty) (TypeFlags_Boolean ts)
                     \<or> has (type_flags ty) (TypeFlags_Void ts)
               then Inr (Str (renderDefaultVal (param_name p) (intrinsicName ty)))
               else Inr (Str (placeholder (param_name p)))))"

subsection \<open>The signature driver\<close>

text \<open>The \<^verbatim>\<open>forEach\<close> that pushes one rendered parameter after the other onto
  \<^verbatim>\<open>suggestionArgumentNames\<close>; a fault in one call ends it.\<close>

fun suggestionArgumentNames :: "ts_services \<Rightarrow> parameter list \<Rightarrow> error + js_string list" where
  "suggestionArgumentNames ts [] = Inr []"
| "suggestionArgumentNames ts (p # ps) =
     (case renderParameter ts p of
        Inl e \<Rightarrow> Inl e
      | Inr v \<Rightarrow>
          (case suggestionArgumentNames ts ps of
             Inl e \<Rightarrow> Inl e
           | Inr vs \<Rightarrow> Inr (v # vs)))"

text \<open>The value of \<^verbatim>\<open>codeSnippet\<close> at the end of the function, for a resolved symbol.\<close>

definition codeSnippet :: "ts_services \<Rightarrow> string \<Rightarrow> entry_symbol \<Rightarrow> error + string" where
  "codeSnippet ts label sy =
     (case valueDeclaration sy of
        None \<Rightarrow> Inr label
      | Some d \<Rightarrow>
          if kind d = 0 then Inr label
          else
            (case signatures d of
               Some (sg # sgs) \<Rightarrow>
                 (case suggestionArgumentNames ts (take (minArgumentCount sg) (parameters sg)) of
                    Inl e \<Rightarrow> Inl e
                  | Inr names \<Rightarrow>
                      if length names > 0
                      then Inr (label @ ''('' @ join '', '' names @ '')'')
                      else Inr (label @ ''()''))
             | _ \<Rightarrow> Inr label))"

text \<open>
  The snippet component of the result of \<^verbatim>\<open>getCompletionEntryDetailsAndSnippet\<close>. The
  argument is the symbol after the lookups at the start of the function; without a
  symbol the function returns \<^verbatim>\<open>undefined\<close> (\<open>None\<close>). The entry details are computed
  by the library alone and are not part of the model.
\<close>

definition getCompletionEntryDetailsAndSnippet ::
  "ts_services \<Rightarrow> string \<Rightarrow> entry_symbol option \<Rightarrow> error + string option" where
  "getCompletionEntryDetailsAndSnippet ts label osy =
     (case osy of
        None \<Rightarrow> Inr None
      | Some sy \<Rightarrow>
          (case codeSnippet ts label sy of
             Inl e \<Rightarrow> Inl e
           | Inr snippet \<Rightarrow> Inr (Some snippet)))"

subsection \<open>Filtering of completions\<close>

record completion_entry =
  entry_name :: string
  entry_kind :: string

record completion_info =
  entries :: "completion_entry list option"

text \<open>The object literal \<^verbatim>\<open>ignoredCompletions\<close>, as the list of its properties.\<close>

definition ignoredCompletions :: "ts_services \<Rightarrow> (string \<times> string) list" where
  "ignoredCompletions ts =
     [(''Boolean'', ScriptElementKind_interfaceElement ts),
      (''Number'', ScriptElementKind_interfaceElement ts),
      (''String'', ScriptElementKind_interfaceElement ts),
      (''Function'', ScriptElementKind_interfaceElement ts),
      (''Object'', ScriptElementKind_interfaceElement ts),
      (''RegExp'', ScriptElementKind_interfaceElement ts),
      (''IArguments'', ScriptElementKind_interfaceElement ts),
      (''int16'', ScriptElementKind_typeElement ts),
      (''int32'', ScriptElementKind_typeElement ts),
      (''int8'', ScriptElementKind_typeElement ts),
      (''uint16'', ScriptElementKind_typeElement ts),
      (''uint32'', ScriptElementKind_typeElement ts),
      (''uint8'', ScriptElementKind_typeElement ts),
      (''instanceof'', ScriptElementKind_keyword ts),
      (''typeof'', ScriptElementKind_keyword ts),
      (''never'', ScriptElementKind_keyword ts),
      (''debugger'', ScriptElementKind_keyword ts),
      (''declare'', ScriptElementKind_keyword ts),
      (''export'', ScriptElementKind_keyword ts),
      (''global'', ScriptElementKind_keyword ts),
      (''keyof'', ScriptElementKind_keyword ts),
      (''module'', ScriptElementKind_keyword ts),
      (''var'', ScriptElementKind_keyword ts),
      (''in'', ScriptElementKind_keyword ts),
      (''from'', ScriptElementKind_keyword ts),
      (''import'', ScriptElementKind_keyword ts),
      (''delete'', ScriptElementKind_keyword ts),
      (''with'', ScriptElementKind_keyword ts),
      (''await'', ScriptElementKind_keyword ts),
      (''try'', ScriptElementKind_keyword ts),
      (''catch'', ScriptElementKind_keyword ts),
      (''finally'', ScriptElementKind_keyword ts),
      (''yield'', ScriptElementKind_keyword ts),
      (''as'', ScriptElementKind_keyword ts),
      (''async'', ScriptElementKind_keyword ts),
      (''abstract'', ScriptElementKind_keyword ts),
      (''any'', ScriptElementKind_keyword ts),
      (''undefined'', ScriptElementKind_keyword ts),
      (''throw'', ScriptElementKind_keyword ts),
      (''symbol'', ScriptElementKind_keyword ts),
      (''super'', ScriptElementKind_keyword ts),
      (''require'', ScriptElementKind_keyword ts),
      (''readonly'', ScriptElementKind_keyword ts),
      (''helpers'', ScriptElementKind_moduleElement ts)]"

text \<open>
  The predicate of \<^verbatim>\<open>filter\<close>. A name that is no property of the table reads as
  \<^verbatim>\<open>undefined\<close> (or, for a name inherited from the object prototype, as a value that is
  not a string), which differs from every kind.
\<close>

definition keepCompletion :: "ts_services \<Rightarrow> completion_entry \<Rightarrow> bool" where
  "keepCompletion ts e =
     (map_of (ignoredCompletions ts) (entry_name e) \<noteq> Some (entry_kind e)
      \<and> indexOf (entry_name e) ''_'' \<noteq> 0)"

definition getCompletionsAtPosition ::
  "ts_services \<Rightarrow> completion_info option \<Rightarrow> completion_info option" where
  "getCompletionsAtPosition ts completions =
     (case completions of
        None \<Rightarrow> None
      | Some info \<Rightarrow>
          (case entries info of
             None \<Rightarrow> Some info
           | Some es \<Rightarrow> Some (info\<lparr>entries := Some (filter (keepCompletion ts) es)\<rparr>)))"

subsection \<open>Concrete inputs\<close>

text \<open>The types \<^verbatim>\<open>number\<close>, \<^verbatim>\<open>string\<close> and \<^verbatim>\<open>boolean\<close>.\<close>

definition number_type :: ts_type where
  "number_type = \<lparr>type_flags = 4, objectFlags = None, symbol = None,
     intrinsicName = Str ''number'', getCallSignatures = None, typeToString = ''number''\<rparr>"

definition string_type :: ts_type where
  "string_type = \<lparr>type_flags = 2, objectFlags = None, symbol = None,
     intrinsicName = Str ''string'', getCallSignatures = None, typeToString = ''string''\<rparr>"

definition boolean_type :: ts_type where
  "boolean_type = \<lparr>type_flags = 65544, objectFlags = None, symbol = None,
     intrinsicName = Str ''boolean'', getCallSignatures = None, typeToString = ''boolean''\<rparr>"

text \<open>An enum type with the given name whose symbol has the given declarations.\<close>

definition enum_type :: "string \<Rightarrow> declaration_node list option \<Rightarrow> ts_type" where
  "enum_type name ds = \<lparr>type_flags = 256, objectFlags = None,
     symbol = Some \<lparr>symbol_name = name, declarations = ds\<rparr>,
     intrinsicName = Undefined, getCallSignatures = None, typeToString = name\<rparr>"

text \<open>An enum declaration whose members are named by identifiers.\<close>

definition enum_declaration :: "string list \<Rightarrow> declaration_node" where
  "enum_declaration names = \<lparr>decl_kind = 229,
     members = Some (map (\<lambda>n. \<lparr>member_name = \<lparr>name_kind = 70, name_text = n\<rparr>\<rparr>) names)\<rparr>"

text \<open>\<^verbatim>\<open>speed: number\<close>\<close>

definition speed_parameter :: parameter where
  "speed_parameter = \<lparr>param_name = ''speed'', parameterType = Some number_type,
     documentationComment = []\<rparr>"

text \<open>\<^verbatim>\<open>dir: Direction\<close> with \<^verbatim>\<open>enum Direction { Forward, Backward }\<close>\<close>

definition dir_parameter :: parameter where
  "dir_parameter = \<lparr>param_name = ''dir'',
     parameterType = Some (enum_type ''Direction''
       (Some [enum_declaration [''Forward'', ''Backward'']])),
     documentationComment = []\<rparr>"

text \<open>\<^verbatim>\<open>unit?: string\<close>, an optional parameter.\<close>

definition unit_parameter :: parameter where
  "unit_parameter = \<lparr>param_name = ''unit'', parameterType = Some string_type,
     documentationComment = []\<rparr>"

text \<open>\<^verbatim>\<open>function move(speed: number, dir: Direction, unit?: string)\<close>\<close>

definition move_signature :: signature where
  "move_signature = \<lparr>parameters = [speed_parameter, dir_parameter, unit_parameter],
     minArgumentCount = 2\<rparr>"

definition move_declaration :: value_declaration where
  "move_declaration = \<lparr>kind = 228, signatures = Some [move_signature]\<rparr>"

definition move_symbol :: entry_symbol where
  "move_symbol = \<lparr>valueDeclaration = Some move_declaration\<rparr>"

text \<open>A parameter of an enum type whose symbol has no \<^verbatim>\<open>declarations\<close> property.\<close>

definition undeclared_enum_parameter :: parameter where
  "undeclared_enum_parameter = \<lparr>param_name = ''dir'',
     parameterType = Some (enum_type ''Direction'' None), documentationComment = []\<rparr>"

text \<open>\<^verbatim>\<open>led: Led\<close> with \<^verbatim>\<open>enum Led { White, Red, Blue }\<close>\<close>

definition led_parameter :: parameter where
  "led_parameter = \<lparr>param_name = ''led'',
     parameterType = Some (enum_type ''Led'' (Some [enum_declaration [''White'', ''Red'', ''Blue'']])),
     documentationComment = []\<rparr>"

text \<open>\<^verbatim>\<open>e: Empty\<close> with \<^verbatim>\<open>enum Empty { }\<close>\<close>

definition empty_enum_parameter :: parameter where
  "empty_enum_parameter = \<lparr>param_name = ''e'',
     parameterType = Some (enum_type ''Empty'' (Some [enum_declaration []])),
     documentationComment = []\<rparr>"

text \<open>\<^verbatim>\<open>key: Key\<close> with \<^verbatim>\<open>enum Key { "a-b", c }\<close>: the name of the first member is a string
  literal (syntax kind 9), not an identifier.\<close>

definition key_declaration :: declaration_node where
  "key_declaration = \<lparr>decl_kind = 229,
     members = Some [\<lparr>member_name = \<lparr>name_kind = 9, name_text = ''a-b''\<rparr>\<rparr>,
                     \<lparr>member_name = \<lparr>name_kind = 70, name_text = ''c''\<rparr>\<rparr>]\<rparr>"

definition key_parameter :: parameter where
  "key_parameter = \<lparr>param_name = ''key'',
     parameterType = Some (enum_type ''Key'' (Some [key_declaration])),
     documentationComment = []\<rparr>"

text \<open>\<^verbatim>\<open>options: { x: number }\<close>, an anonymous object type without call signatures.\<close>

definition options_type :: ts_type where
  "options_type = \<lparr>type_flags = 32768, objectFlags = Some 16, symbol = None,
     intrinsicName = Undefined, getCallSignatures = Some [], typeToString = ''{ x: number; }''\<rparr>"

definition options_parameter :: parameter where
  "options_parameter = \<lparr>param_name = ''options'', parameterType = Some options_type,
     documentationComment = []\<rparr>"

text \<open>\<^verbatim>\<open>handler: () => number\<close>\<close>

definition handler_signature :: function_signature where
  "handler_signature = \<lparr>displayPartsStr = ''(): number'', returnType_flags = 4\<rparr>"

definition handler_type :: ts_type where
  "handler_type = \<lparr>type_flags = 32768, objectFlags = Some 16, symbol = None,
     intrinsicName = Undefined, getCallSignatures = Some [handler_signature],
     typeToString = ''() => number''\<rparr>"

definition handler_parameter :: parameter where
  "handler_parameter = \<lparr>param_name = ''handler'', parameterType = Some handler_type,
     documentationComment = []\<rparr>"

text \<open>\<^verbatim>\<open>leds: string\<close>, \<^verbatim>\<open>text: string\<close> and \<^verbatim>\<open>on: boolean\<close>\<close>

definition leds_parameter :: parameter where
  "leds_parameter = \<lparr>param_name = ''leds'', parameterType = Some string_type,
     documentationComment = []\<rparr>"

definition text_parameter :: parameter where
  "text_parameter = \<lparr>param_name = ''text'', parameterType = Some string_type,
     documentationComment = []\<rparr>"

definition on_parameter :: parameter where
  "on_parameter = \<lparr>param_name = ''on'', parameterType = Some boolean_type,
     documentationComment = []\<rparr>"

text \<open>A variable, and a function without parameters.\<close>

definition variable_symbol :: entry_symbol where
  "variable_symbol = \<lparr>valueDeclaration = Some \<lparr>kind = 223, signatures = Some []\<rparr>\<rparr>"

definition stop_symbol :: entry_symbol where
  "stop_symbol = \<lparr>valueDeclaration =
     Some \<lparr>kind = 228, signatures = Some [\<lparr>parameters = [], minArgumentCount = 0\<rparr>]\<rparr>\<rparr>"

text \<open>\<^verbatim>\<open>function say(text: string)\<close> whose parameter is documented as
  \<^verbatim>\<open>the text, eg: ""\<close>: one required parameter.\<close>

definition say_parameter :: parameter where
  "say_parameter = \<lparr>param_name = ''text'', parameterType = Some string_type,
     documentationComment = ''the text, eg: '' @ [CHR 0x22, CHR 0x22]\<rparr>"

definition say_signature :: signature where
  "say_signature = \<lparr>parameters = [say_parameter], minArgumentCount = 1\<rparr>"

definition say_symbol :: entry_symbol where
  "say_symbol = \<lparr>valueDeclaration =
     Some \<lparr>kind = 228, signatures = Some [say_signature]\<rparr>\<rparr>"

text \<open>A list of completions.\<close>

definition sample_entries :: "completion_entry list" where
  "sample_entries =
     [\<lparr>entry_name = ''Boolean'', entry_kind = ''interface''\<rparr>,
      \<lparr>entry_name = ''basic'', entry_kind = ''module''\<rparr>,
      \<lparr>entry_name = ''_internal'', entry_kind = ''function''\<rparr>,
      \<lparr>entry_name = ''var'', entry_kind = ''keyword''\<rparr>,
      \<lparr>entry_name = ''uint8'', entry_kind = ''type''\<rparr>,
      \<lparr>entry_name = ''helpers'', entry_kind = ''module''\<rparr>,
      \<lparr>entry_name = ''let'', entry_kind = ''keyword''\<rparr>,
      \<lparr>entry_name = ''Number'', entry_kind = ''var''\<rparr>]"

section \<open>Properties\<close>

subsection \<open>Auxiliary facts\<close>

lemma has_nonzero: "has f m \<Longrightarrow> f \<noteq> 0"
  by (auto simp: has_def)

lemma colonThenCapture_no_colon: "CHR '':'' \<notin> set s \<Longrightarrow> colonThenCapture s = None"
  by (cases s) auto

lemma optDotThenColon_no_colon: "CHR '':'' \<notin> set s \<Longrightarrow> optDotThenColon s = None"
  by (cases s) (auto simp: colonThenCapture_no_colon)

lemma egAt_no_colon: "CHR '':'' \<notin> set s \<Longrightarrow> egAt prev s = None"
  by (cases "(prev, s)" rule: egAt.cases) (auto simp: optDotThenColon_no_colon)

lemma egExec_from_no_colon: "CHR '':'' \<notin> set s \<Longrightarrow> egExec_from prev s = None"
  by (induction s arbitrary: prev) (auto simp: egAt_no_colon)

lemma exampleFromDoc_no_colon: "CHR '':'' \<notin> set doc \<Longrightarrow> exampleFromDoc doc = None"
  by (simp add: exampleFromDoc_def paramExamples_def egExec_from_no_colon)

lemma exampleFromDoc_empty: "exampleFromDoc [] = None"
  by (simp add: exampleFromDoc_no_colon)

text \<open>\<^verbatim>\<open>renderParameter\<close> after the documentation gave no example, on a type whose flags are
  not zero: the classification of the type.\<close>

lemma renderParameter_type:
  assumes "exampleFromDoc (documentationComment p) = None" and "parameterType p = Some ty"
    and "type_flags ty \<noteq> 0"
  shows "renderParameter ts p =
     (if has (type_flags ty) (TypeFlags_EnumLiteral ts) then
        (case enumValue ts ty of
           Inl e \<Rightarrow> Inl e
         | Inr ev \<Rightarrow>
             if truthy ev
             then (case symbol ty of
                     None \<Rightarrow> Inl TypeError
                   | Some sy \<Rightarrow> Inr (Str (symbol_name sy @ ''.'' @ js_text ev)))
             else Inr (Str (placeholder (param_name p))))
      else if has (type_flags ty) (TypeFlags_Object ts) then
        (if has (case objectFlags ty of None \<Rightarrow> 0 | Some ofl \<Rightarrow> ofl) (ObjectFlags_Anonymous ts)
         then Inr (Str (anonymousFunction ts ty))
         else
           (let typeString = typeToString ty;
                bracketIndex = indexOf typeString ''[]''
            in if has (type_flags ty) (ObjectFlags_Tuple ts)
                  \<or> (bracketIndex \<noteq> -1 \<and> bracketIndex = int (length typeString) - 2)
               then Inr (Str ''[]'')
               else Inr (Str (placeholder (param_name p)))))
      else if has (type_flags ty) (TypeFlags_String ts)
            \<or> has (type_flags ty) (TypeFlags_Number ts)
            \<or> has (type_flags ty) (TypeFlags_Boolean ts)
            \<or> has (type_flags ty) (TypeFlags_Void ts)
      then Inr (Str (renderDefaultVal (param_name p) (intrinsicName ty)))
      else Inr (Str (placeholder (param_name p))))"
  using assms by (simp add: renderParameter_def)

text \<open>The one fault of \<^verbatim>\<open>renderParameter\<close>: the type is classified as an enum literal, its
  symbol is present, and \<^verbatim>\<open>getDeclarations()\<close> gave \<^verbatim>\<open>undefined\<close>.\<close>

lemma renderParameter_fault_iff:
  "renderParameter ts p = Inl e \<longleftrightarrow>
     exampleFromDoc (documentationComment p) = None \<and>
     (\<exists>ty sy. parameterType p = Some ty \<and> has (type_flags ty) (TypeFlags_EnumLiteral ts)
        \<and> symbol ty = Some sy \<and> declarations sy = None)"
  by (cases e) (auto simp: renderParameter_def enumValue_def Let_def dest: has_nonzero
      split: option.splits sum.splits list.splits if_splits)

lemma suggestionArgumentNames_all2:
  "\<forall>p\<in>set ps. renderParameter ts p \<noteq> Inl TypeError \<Longrightarrow>
   \<exists>names. suggestionArgumentNames ts ps = Inr names
     \<and> list_all2 (\<lambda>p v. renderParameter ts p = Inr v) ps names"
proof (induction ps)
  case Nil
  then show ?case by simp
next
  case (Cons p ps)
  then obtain names where n: "suggestionArgumentNames ts ps = Inr names"
    "list_all2 (\<lambda>p v. renderParameter ts p = Inr v) ps names" by auto
  from Cons.prems obtain v where v: "renderParameter ts p = Inr v"
    by (cases "renderParameter ts p") (auto intro: error.exhaust)
  show ?case using n v by simp
qed

lemma indexOf_from_range: "indexOf_from i pat s = -1 \<or> i \<le> indexOf_from i pat s"
proof (induction s arbitrary: i)
  case Nil
  then show ?case by simp
next
  case (Cons c cs)
  from Cons[of "i + 1"] show ?case by auto
qed

lemma indexOf_zero_iff: "indexOf s pat = 0 \<longleftrightarrow> prefix pat s"
proof (cases s)
  case Nil
  then show ?thesis by (simp add: indexOf_def)
next
  case (Cons c cs)
  from indexOf_from_range[of 1 pat cs] show ?thesis
    unfolding indexOf_def Cons by auto
qed

lemma ignoredCompletions_distinct: "distinct (map fst (ignoredCompletions ts))"
  by (simp add: ignoredCompletions_def)

lemma keepCompletion_iff:
  "keepCompletion ts e \<longleftrightarrow>
     \<not> prefix ''_'' (entry_name e) \<and> (entry_name e, entry_kind e) \<notin> set (ignoredCompletions ts)"
  by (simp add: keepCompletion_def indexOf_zero_iff map_of_eq_Some_iff[OF ignoredCompletions_distinct]
      conj_commute)

subsection \<open>The signature driver\<close>

text \<open>
  The structure of the snippet of a callable symbol (a symbol with a value declaration
  at which its type has call signatures) whose first call signature has \<open>k\<close> required
  parameters, none of which faults: the label, and between parentheses the join of the
  list of the \<open>k\<close> renderings, in the order of the parameters. A rendering that is
  \<^verbatim>\<open>undefined\<close> is joined as the empty text, so the list has \<open>k\<close> entries while the text
  of the snippet may show fewer arguments.
\<close>

lemma suggestions_joined:
  assumes "valueDeclaration sy = Some d" and "kind d \<noteq> 0"
    and "signatures d = Some (sg # sgs)"
    and "minArgumentCount sg \<le> length (parameters sg)"
    and "\<forall>p\<in>set (take (minArgumentCount sg) (parameters sg)).
           renderParameter ts p \<noteq> Inl TypeError"
  shows "\<exists>names. length names = minArgumentCount sg
           \<and> (\<forall>i<minArgumentCount sg. renderParameter ts (parameters sg ! i) = Inr (names ! i))
           \<and> getCompletionEntryDetailsAndSnippet ts label (Some sy)
               = Inr (Some (label @ ''('' @ join '', '' names @ '')''))"
proof -
  let ?ps = "take (minArgumentCount sg) (parameters sg)"
  from suggestionArgumentNames_all2[OF assms(5)] obtain names where
    n: "suggestionArgumentNames ts ?ps = Inr names"
    and a: "list_all2 (\<lambda>p v. renderParameter ts p = Inr v) ?ps names" by blast
  from a assms(4) have len: "length names = minArgumentCount sg"
    by (auto dest: list_all2_lengthD)
  have nth: "\<forall>i<minArgumentCount sg. renderParameter ts (parameters sg ! i) = Inr (names ! i)"
  proof (intro allI impI)
    fix i assume i: "i < minArgumentCount sg"
    with len a have "renderParameter ts (?ps ! i) = Inr (names ! i)"
      by (auto dest: list_all2_nthD2)
    with i show "renderParameter ts (parameters sg ! i) = Inr (names ! i)" by simp
  qed
  have "getCompletionEntryDetailsAndSnippet ts label (Some sy)
               = Inr (Some (label @ ''('' @ join '', '' names @ '')''))"
    using assms(1-3) n
    by (cases names) (simp_all add: getCompletionEntryDetailsAndSnippet_def codeSnippet_def)
  with len nth show ?thesis by blast
qed

text \<open>The scenario \<^verbatim>\<open>move(speed: number, dir: Direction, unit?: string)\<close>: two required
  parameters, two arguments.\<close>

lemma move_snippet:
  "getCompletionEntryDetailsAndSnippet ts_sample ''move'' (Some move_symbol)
     = Inr (Some ''move(0, Direction.Forward)'')"
proof -
  have r0: "renderParameter ts_sample speed_parameter = Inr (Str ''0'')"
    by code_simp
  have r1: "renderParameter ts_sample dir_parameter = Inr (Str ''Direction.Forward'')"
    by code_simp
  have h: "\<forall>p\<in>set (take (minArgumentCount move_signature) (parameters move_signature)).
             renderParameter ts_sample p \<noteq> Inl TypeError"
    by (simp add: move_signature_def numeral_2_eq_2 r0 r1)
  from suggestions_joined[of move_symbol move_declaration move_signature "[]" ts_sample
      "''move''", OF _ _ _ _ h]
  obtain names where len: "length names = 2"
    and nth: "\<forall>i<2. renderParameter ts_sample (parameters move_signature ! i) = Inr (names ! i)"
    and res: "getCompletionEntryDetailsAndSnippet ts_sample ''move'' (Some move_symbol)
               = Inr (Some (''move'' @ ''('' @ join '', '' names @ '')''))"
    by (auto simp: move_symbol_def move_declaration_def move_signature_def)
  from len obtain a b where ab: "names = [a, b]"
    by (auto simp: numeral_2_eq_2 length_Suc_conv)
  from nth have "renderParameter ts_sample (parameters move_signature ! 0) = Inr (names ! 0)"
    and "renderParameter ts_sample (parameters move_signature ! 1) = Inr (names ! 1)"
    by simp_all
  with ab r0 r1 have "names = [Str ''0'', Str ''Direction.Forward'']"
    by (simp add: move_signature_def)
  with res show ?thesis by simp
qed

text \<open>
  Claim C1. The snippet of a callable symbol whose first call signature has \<open>k\<close>
  required parameters is claimed to hold exactly \<open>k\<close> comma-joined placeholder strings,
  so that the synthesized call has \<open>k\<close> arguments. The driver does push one rendering
  for each required parameter, but \<^verbatim>\<open>renderParameter\<close> returns \<^verbatim>\<open>undefined\<close> for a
  parameter documented with an empty quoted example, and \<^verbatim>\<open>join\<close> writes nothing for
  it: \<^verbatim>\<open>say(text: string)\<close> with the documentation \<^verbatim>\<open>the text, eg: ""\<close> has one required
  parameter and gets the snippet \<^verbatim>\<open>say()\<close>, the snippet of a function without required
  parameters.
\<close>

theorem snippet_argument_missing:
  "minArgumentCount say_signature = 1
   \<and> renderParameter ts_sample say_parameter = Inr Undefined
   \<and> getCompletionEntryDetailsAndSnippet ts_sample ''say'' (Some say_symbol)
       = Inr (Some ''say()'')
   \<and> getCompletionEntryDetailsAndSnippet ts_sample ''say'' (Some say_symbol)
       = getCompletionEntryDetailsAndSnippet ts_sample ''say'' (Some stop_symbol)"
proof -
  have r: "renderParameter ts_sample say_parameter = Inr Undefined"
    by code_simp
  have s: "getCompletionEntryDetailsAndSnippet ts_sample ''say'' (Some say_symbol)
       = Inr (Some ''say()'')"
    by (simp add: getCompletionEntryDetailsAndSnippet_def codeSnippet_def say_symbol_def
        say_signature_def r)
  have z: "getCompletionEntryDetailsAndSnippet ts_sample ''say'' (Some stop_symbol)
       = Inr (Some ''say()'')"
    by (simp add: getCompletionEntryDetailsAndSnippet_def codeSnippet_def stop_symbol_def)
  show ?thesis using r s z by (simp add: say_signature_def)
qed

text \<open>
  Claim C9. A resolved symbol that is not callable (it has no value declaration of a
  known kind, or its type there has no call signature) gets its label, unchanged, as the
  snippet. A callable symbol whose first signature has no required parameter gets the
  label followed by \<^verbatim>\<open>()\<close>.
\<close>

theorem snippet_label:
  "((case valueDeclaration sy of
       None \<Rightarrow> True
     | Some d \<Rightarrow> kind d = 0 \<or> signatures d = None \<or> signatures d = Some [])
     \<longrightarrow> getCompletionEntryDetailsAndSnippet ts label (Some sy) = Inr (Some label))
   \<and> (valueDeclaration sy = Some d' \<and> kind d' \<noteq> 0
         \<and> signatures d' = Some (sg # sgs) \<and> minArgumentCount sg = 0
     \<longrightarrow> getCompletionEntryDetailsAndSnippet ts label (Some sy) = Inr (Some (label @ ''()'')))"
  by (auto simp: getCompletionEntryDetailsAndSnippet_def codeSnippet_def split: option.splits)

theorem snippet_label_witness:
  "getCompletionEntryDetailsAndSnippet ts_sample ''speed'' (Some variable_symbol)
     = Inr (Some ''speed'')
   \<and> getCompletionEntryDetailsAndSnippet ts_sample ''stop'' (Some stop_symbol)
     = Inr (Some ''stop()'')"
  using snippet_label[where sy = variable_symbol and ts = ts_sample and label = "''speed''"]
    snippet_label[where sy = stop_symbol and ts = ts_sample and label = "''stop''"
      and d' = "\<lparr>kind = 228, signatures = Some [\<lparr>parameters = [], minArgumentCount = 0\<rparr>]\<rparr>"
      and sg = "\<lparr>parameters = [], minArgumentCount = 0\<rparr>" and sgs = "[]"]
  by (simp add: variable_symbol_def stop_symbol_def)

subsection \<open>Rendering of one parameter\<close>

text \<open>
  Claim C2. \<^verbatim>\<open>renderParameter\<close> is claimed never to throw, also for an enum type whose
  symbol has no declarations. The code guards the symbol, the enum declaration and its
  members, but reads \<^verbatim>\<open>enumDeclarations.length\<close> without a guard: on an enum-literal type
  whose symbol has no \<^verbatim>\<open>declarations\<close> the call ends in a \<^verbatim>\<open>TypeError\<close>.
\<close>

theorem renderParameter_undeclared_enum_fault:
  "renderParameter ts_sample undeclared_enum_parameter = Inl TypeError"
  by (simp add: renderParameter_def exampleFromDoc_empty undeclared_enum_parameter_def
      enum_type_def ts_sample_def has_def enumValue_def)

text \<open>
  Claim C3, as stated, promises \<^verbatim>\<open>EnumName.FirstMemberName\<close> for every enum declaration
  with at least one member. The code emits it only when the name of the first member is
  an identifier: for \<^verbatim>\<open>enum Key { "a-b", c }\<close> it emits the generic placeholder.
\<close>

theorem enum_first_member_counterexample:
  "renderParameter ts_sample key_parameter = Inr (Str ''${1:key}'')
   \<and> renderParameter ts_sample key_parameter \<noteq> Inr (Str ''Key.a-b'')"
  by (simp add: renderParameter_def exampleFromDoc_empty key_parameter_def key_declaration_def
      enum_type_def ts_sample_def has_def enumValue_def placeholder_def)

text \<open>
  Claim C3, amended. Let the documentation give no example, and let the type of the
  parameter be an enum-literal type whose symbol has a list of declarations. If the
  first declaration of kind \<^verbatim>\<open>EnumDeclaration\<close> in that list has at least one member and
  the name of its first member (in source order) is an identifier, the rendering is
  \<^verbatim>\<open>EnumName.FirstMemberName\<close>. If there is no such declaration, or it has no members, or
  the name of its first member is not an identifier, the rendering is the generic
  placeholder bound to the parameter's name.
\<close>

theorem enum_first_member:
  assumes "exampleFromDoc (documentationComment p) = None"
    and "parameterType p = Some ty"
    and "has (type_flags ty) (TypeFlags_EnumLiteral ts)"
    and "symbol ty = Some sy"
    and "declarations sy = Some ds"
  shows "(findEnumDeclaration ts ds = Some d \<and> members d = Some (m # ms)
             \<and> name_kind (member_name m) = SyntaxKind_Identifier ts
             \<and> name_text (member_name m) \<noteq> []
          \<longrightarrow> renderParameter ts p
                = Inr (Str (symbol_name sy @ ''.'' @ name_text (member_name m))))
       \<and> (findEnumDeclaration ts ds = None
            \<or> findEnumDeclaration ts ds = Some d
                \<and> (members d = None \<or> members d = Some []
                    \<or> members d = Some (m # ms)
                        \<and> name_kind (member_name m) \<noteq> SyntaxKind_Identifier ts)
          \<longrightarrow> renderParameter ts p = Inr (Str (''${1:'' @ param_name p @ ''}'')))"
  using assms has_nonzero[OF assms(3)]
  by (auto simp: renderParameter_type enumValue_def placeholder_def)

text \<open>\<^verbatim>\<open>enum Led { White, Red, Blue }\<close> gives \<^verbatim>\<open>Led.White\<close>; \<^verbatim>\<open>enum Empty { }\<close> gives the
  placeholder.\<close>

theorem enum_first_member_witness:
  "renderParameter ts_sample led_parameter = Inr (Str ''Led.White'')
   \<and> renderParameter ts_sample empty_enum_parameter = Inr (Str ''${1:e}'')"
  using enum_first_member[where p = led_parameter and ts = ts_sample
      and ty = "enum_type ''Led'' (Some [enum_declaration [''White'', ''Red'', ''Blue'']])"
      and sy = "\<lparr>symbol_name = ''Led'',
                 declarations = Some [enum_declaration [''White'', ''Red'', ''Blue'']]\<rparr>"
      and ds = "[enum_declaration [''White'', ''Red'', ''Blue'']]"
      and d = "enum_declaration [''White'', ''Red'', ''Blue'']"
      and m = "\<lparr>member_name = \<lparr>name_kind = 70, name_text = ''White''\<rparr>\<rparr>"
      and ms = "[\<lparr>member_name = \<lparr>name_kind = 70, name_text = ''Red''\<rparr>\<rparr>,
                 \<lparr>member_name = \<lparr>name_kind = 70, name_text = ''Blue''\<rparr>\<rparr>]"]
    enum_first_member[where p = empty_enum_parameter and ts = ts_sample
      and ty = "enum_type ''Empty'' (Some [enum_declaration []])"
      and sy = "\<lparr>symbol_name = ''Empty'', declarations = Some [enum_declaration []]\<rparr>"
      and ds = "[enum_declaration []]"
      and d = "enum_declaration []"]
  by (simp add: led_parameter_def empty_enum_parameter_def enum_type_def enum_declaration_def
      exampleFromDoc_empty ts_sample_def has_def)

text \<open>
  Claim C4, as stated, promises the generic placeholder for an anonymous object type
  without call signature. The code returns a function literal in the whole branch of
  anonymous object types: without a call signature the literal keeps its initial
  parameter list \<^verbatim>\<open>()\<close> and its initial body \<^verbatim>\<open>$0\<close>.
\<close>

theorem anonymous_without_signature_counterexample:
  "renderParameter ts_sample options_parameter
     = Inr (Str (''function () {'' @ [CHR 0x0A, CHR 0x09] @ ''$0'' @ [CHR 0x0A] @ ''}''))
   \<and> renderParameter ts_sample options_parameter \<noteq> Inr (Str ''${1:options}'')"
  by (simp add: renderParameter_def exampleFromDoc_empty options_parameter_def options_type_def
      ts_sample_def has_def anonymousFunction_def functionLiteral_def)

text \<open>
  Claim C4, amended. For every parameter whose documentation gives no example and whose
  type is an anonymous object type that exposes no call signature, the rendering is the
  function literal with the empty parameter list and the body \<^verbatim>\<open>$0\<close>, that is
  \<^verbatim>\<open>function () {\<close>, a line holding a tab and \<^verbatim>\<open>$0\<close>, and \<^verbatim>\<open>}\<close>.
\<close>

theorem anonymous_without_signature:
  assumes "exampleFromDoc (documentationComment p) = None"
    and "parameterType p = Some ty"
    and "\<not> has (type_flags ty) (TypeFlags_EnumLiteral ts)"
    and "has (type_flags ty) (TypeFlags_Object ts)"
    and "objectFlags ty = Some ofl" and "has ofl (ObjectFlags_Anonymous ts)"
    and "getCallSignatures ty = None \<or> getCallSignatures ty = Some []"
  shows "renderParameter ts p
     = Inr (Str (''function () {'' @ [CHR 0x0A, CHR 0x09] @ ''$0'' @ [CHR 0x0A] @ ''}''))"
  using assms has_nonzero[OF assms(4)]
  by (auto simp: renderParameter_type anonymousFunction_def functionLiteral_def)

theorem anonymous_without_signature_witness:
  "renderParameter ts_sample options_parameter
     = Inr (Str (''function () {'' @ [CHR 0x0A, CHR 0x09] @ ''$0'' @ [CHR 0x0A] @ ''}''))"
  using anonymous_without_signature[where p = options_parameter and ts = ts_sample
      and ty = options_type and ofl = 16]
  by (simp add: options_parameter_def options_type_def exampleFromDoc_empty ts_sample_def has_def)

text \<open>
  Claim C7. For a parameter of an anonymous function type with at least one call
  signature (and no example in its documentation), the rendering is a function literal
  whose parameter list comes from the first signature and whose body is \<^verbatim>\<open>return 0;\<close> for
  a number-like return type, \<^verbatim>\<open>return "";\<close> for a string-like one, \<^verbatim>\<open>return false;\<close> for a
  boolean-like one, and no return statement otherwise; each body ends with the final tab
  stop \<^verbatim>\<open>$0\<close> of the snippet syntax.
\<close>

theorem anonymous_function_body:
  assumes "exampleFromDoc (documentationComment p) = None"
    and "parameterType p = Some ty"
    and "\<not> has (type_flags ty) (TypeFlags_EnumLiteral ts)"
    and "has (type_flags ty) (TypeFlags_Object ts)"
    and "objectFlags ty = Some ofl" and "has ofl (ObjectFlags_Anonymous ts)"
    and "getCallSignatures ty = Some (sg # sgs)"
  shows "renderParameter ts p = Inr (Str
     (''function '' @ functionArgument sg @ '' {'' @ [CHR 0x0A, CHR 0x09]
      @ (if has (returnType_flags sg) (TypeFlags_NumberLike ts) then ''return 0;$0''
         else if has (returnType_flags sg) (TypeFlags_StringLike ts)
           then ''return '' @ [CHR 0x22, CHR 0x22] @ '';$0''
         else if has (returnType_flags sg) (TypeFlags_BooleanLike ts) then ''return false;$0''
         else ''$0'')
      @ [CHR 0x0A] @ ''}''))"
  using assms has_nonzero[OF assms(4)]
  by (simp add: renderParameter_type anonymousFunction_def returnValue_def functionLiteral_def)

text \<open>\<^verbatim>\<open>handler: () => number\<close> gives a function literal that returns \<open>0\<close>.\<close>

theorem anonymous_function_body_witness:
  "renderParameter ts_sample handler_parameter
     = Inr (Str (''function () {'' @ [CHR 0x0A, CHR 0x09] @ ''return 0;$0'' @ [CHR 0x0A] @ ''}''))"
  using anonymous_function_body[where p = handler_parameter and ts = ts_sample
      and ty = handler_type and ofl = 16 and sg = handler_signature and sgs = "[]"]
  by (simp add: handler_parameter_def handler_type_def handler_signature_def
      exampleFromDoc_empty ts_sample_def has_def functionArgument_def lastIndexOf_def substr0_def)

text \<open>
  Claim C8, as stated, calls the template for \<^verbatim>\<open>leds\<close> a blank image grid. The template
  of the code is a grid of five rows of five cells in which the centre cell is lit
  (\<^verbatim>\<open>#\<close>); only the other cells are off.
\<close>

theorem image_literal_counterexample:
  "renderParameter ts_sample leds_parameter = Inr (Str (''`'' @ defaultImgLit @ ''`''))
   \<and> CHR ''#'' \<in> set defaultImgLit"
  by (simp add: renderParameter_def exampleFromDoc_empty leds_parameter_def string_type_def
      ts_sample_def has_def renderDefaultVal_def defaultImgLit_def)

text \<open>
  Claim C8, amended. For a parameter of a primitive type whose documentation gives no
  example: a string-typed parameter named \<^verbatim>\<open>leds\<close> is rendered as the block literal of
  the image template of the code (back quotes around five rows of five cells, each row
  on a line of its own after a tab, all cells off except the centre one); a string-typed
  parameter of any other name as the empty string literal; a number-typed parameter as
  \<^verbatim>\<open>0\<close>; a boolean-typed parameter as \<^verbatim>\<open>false\<close>.
\<close>

theorem primitive_defaults:
  assumes "exampleFromDoc (documentationComment p) = None"
    and "parameterType p = Some ty"
    and "\<not> has (type_flags ty) (TypeFlags_EnumLiteral ts)"
    and "\<not> has (type_flags ty) (TypeFlags_Object ts)"
  shows "(has (type_flags ty) (TypeFlags_String ts) \<and> intrinsicName ty = Str ''string'' \<longrightarrow>
            renderParameter ts p = Inr (Str (if param_name p = ''leds''
                then ''`'' @
                  [CHR 0x0A, CHR 0x09] @ ''. . . . .'' @
                  [CHR 0x0A, CHR 0x09] @ ''. . . . .'' @
                  [CHR 0x0A, CHR 0x09] @ ''. . # . .'' @
                  [CHR 0x0A, CHR 0x09] @ ''. . . . .'' @
                  [CHR 0x0A, CHR 0x09] @ ''. . . . .'' @
                  [CHR 0x0A, CHR 0x09] @ ''`''
                else [CHR 0x22, CHR 0x22])))
       \<and> (has (type_flags ty) (TypeFlags_Number ts) \<and> intrinsicName ty = Str ''number'' \<longrightarrow>
            renderParameter ts p = Inr (Str ''0''))
       \<and> (has (type_flags ty) (TypeFlags_Boolean ts) \<and> intrinsicName ty = Str ''boolean'' \<longrightarrow>
            renderParameter ts p = Inr (Str ''false''))"
  using assms
  by (cases "type_flags ty = 0")
    (auto simp: renderParameter_type renderDefaultVal_def has_def defaultImgLit_def)

theorem primitive_defaults_witness:
  "renderParameter ts_sample leds_parameter = Inr (Str (''`'' @ defaultImgLit @ ''`''))
   \<and> renderParameter ts_sample text_parameter = Inr (Str [CHR 0x22, CHR 0x22])
   \<and> renderParameter ts_sample speed_parameter = Inr (Str ''0'')
   \<and> renderParameter ts_sample on_parameter = Inr (Str ''false'')"
  using primitive_defaults[where p = leds_parameter and ty = string_type and ts = ts_sample]
    primitive_defaults[where p = text_parameter and ty = string_type and ts = ts_sample]
    primitive_defaults[where p = speed_parameter and ty = number_type and ts = ts_sample]
    primitive_defaults[where p = on_parameter and ty = boolean_type and ts = ts_sample]
  by (simp add: leds_parameter_def text_parameter_def speed_parameter_def on_parameter_def
      string_type_def number_type_def boolean_type_def exampleFromDoc_empty ts_sample_def
      has_def defaultImgLit_def)

subsection \<open>Filtering of completions\<close>

text \<open>
  Claim C10. In the list returned by \<^verbatim>\<open>getCompletionsAtPosition\<close> no entry has a name
  that begins with an underscore and no entry is a (name, kind) pair of the table
  \<^verbatim>\<open>ignoredCompletions\<close>; the list consists of all other entries of the list the language
  service gave, unchanged and in their order.
\<close>

theorem completions_filtered:
  assumes "entries info = Some es"
  shows "\<exists>rs. getCompletionsAtPosition ts (Some info) = Some (info\<lparr>entries := Some rs\<rparr>)
     \<and> (\<forall>e\<in>set rs. \<not> prefix ''_'' (entry_name e)
            \<and> (entry_name e, entry_kind e) \<notin> set (ignoredCompletions ts))
     \<and> rs = filter (\<lambda>e. \<not> prefix ''_'' (entry_name e)
            \<and> (entry_name e, entry_kind e) \<notin> set (ignoredCompletions ts)) es
     \<and> subseq rs es"
proof -
  have "filter (keepCompletion ts) es = filter (\<lambda>e. \<not> prefix ''_'' (entry_name e)
            \<and> (entry_name e, entry_kind e) \<notin> set (ignoredCompletions ts)) es"
    by (rule filter_cong[OF refl]) (rule keepCompletion_iff)
  then show ?thesis using assms
    by (auto simp: getCompletionsAtPosition_def)
qed

theorem completions_filtered_witness:
  "getCompletionsAtPosition ts_sample (Some \<lparr>entries = Some sample_entries\<rparr>)
     = Some \<lparr>entries = Some
         [\<lparr>entry_name = ''basic'', entry_kind = ''module''\<rparr>,
          \<lparr>entry_name = ''let'', entry_kind = ''keyword''\<rparr>,
          \<lparr>entry_name = ''Number'', entry_kind = ''var''\<rparr>]\<rparr>"
proof -
  from completions_filtered[of "\<lparr>entries = Some sample_entries\<rparr>" sample_entries ts_sample]
  obtain rs where
    r: "getCompletionsAtPosition ts_sample (Some \<lparr>entries = Some sample_entries\<rparr>)
          = Some (\<lparr>entries = Some sample_entries\<rparr>\<lparr>entries := Some rs\<rparr>)"
    and f: "rs = filter (\<lambda>e. \<not> prefix ''_'' (entry_name e)
            \<and> (entry_name e, entry_kind e) \<notin> set (ignoredCompletions ts_sample)) sample_entries"
    by auto
  have "rs = [\<lparr>entry_name = ''basic'', entry_kind = ''module''\<rparr>,
          \<lparr>entry_name = ''let'', entry_kind = ''keyword''\<rparr>,
          \<lparr>entry_name = ''Number'', entry_kind = ''var''\<rparr>]"
    unfolding f by (simp add: sample_entries_def ignoredCompletions_def ts_sample_def)
  with r show ?thesis by simp
qed

subsection \<open>Examples in the documentation\<close>

lemma lineTerminator_whiteSpace: "isLineTerminator c \<Longrightarrow> isWhiteSpace c"
  by (auto simp: isLineTerminator_def isWhiteSpace_def)

lemma dotPlus_start:
  assumes "u \<noteq> []" and "\<not> isWhiteSpace (hd u)"
  shows "dotPlus u = Some (takeWhile (\<lambda>c. \<not> isLineTerminator c) u)"
  using assms by (cases u) (auto simp: dotPlus_def dest: lineTerminator_whiteSpace)

lemma spacesThenCapture_skip:
  assumes "\<forall>c\<in>set ws. isWhiteSpace c" and "dotPlus u = Some cap"
    and "u = [] \<or> \<not> isWhiteSpace (hd u)"
  shows "spacesThenCapture (ws @ u) = Some cap"
  using assms(1)
proof (induction ws)
  case Nil
  from assms(2,3) show ?case by (cases u) auto
next
  case (Cons c ws)
  then show ?case by simp
qed

text \<open>No match starts inside a text without colon that precedes the marker.\<close>

lemma egAt_before_marker:
  assumes "u \<noteq> []" and "CHR '':'' \<notin> set u" and "e = CHR ''e'' \<or> e = CHR ''E''"
  shows "egAt prev (u @ e # s) = None"
proof (cases u)
  case Nil
  with assms(1) show ?thesis by simp
next
  case (Cons a u1)
  show ?thesis
  proof (cases u1)
    case Nil
    with Cons assms(3) show ?thesis by auto
  next
    case (Cons b u2)
    note u1 = this
    show ?thesis
    proof (cases u2)
      case Nil
      with u1 \<open>u = a # u1\<close> assms(3) show ?thesis by auto
    next
      case (Cons c u3)
      with u1 \<open>u = a # u1\<close> assms(2,3) show ?thesis
        by (cases u3) auto
    qed
  qed
qed

lemma egExec_from_skip:
  assumes "CHR '':'' \<notin> set pre" and "e = CHR ''e'' \<or> e = CHR ''E''"
  shows "egExec_from prev (pre @ e # s)
     = egExec_from (if pre = [] then prev else Some (last pre)) (e # s)"
  using assms(1)
proof (induction pre arbitrary: prev)
  case Nil
  then show ?case by simp
next
  case (Cons a pre)
  have "egAt prev ((a # pre) @ e # s) = None"
    using Cons.prems assms(2) by (intro egAt_before_marker) auto
  then have "egExec_from prev ((a # pre) @ e # s) = egExec_from (Some a) (pre @ e # s)"
    by simp
  also have "\<dots> = egExec_from (if pre = [] then Some a else Some (last pre)) (e # s)"
    using Cons by simp
  finally show ?case by simp
qed

text \<open>
  The first expression on a documentation that holds the marker: a text \<open>pre\<close> without
  colon that does not end in a word character, \<^verbatim>\<open>eg\<close> in either case, an optional period,
  the colon, white space \<open>ws\<close>, and a rest \<open>u\<close> that starts with a character other than
  white space. Group 1 is \<open>u\<close> up to the end of its line.
\<close>

lemma paramExamples_marker:
  assumes "CHR '':'' \<notin> set pre" and "pre = [] \<or> \<not> isWordChar (last pre)"
    and "e = CHR ''e'' \<or> e = CHR ''E''" and "g = CHR ''g'' \<or> g = CHR ''G''"
    and "dot = [] \<or> dot = ''.''"
    and "\<forall>c\<in>set ws. isWhiteSpace c"
    and "u \<noteq> []" and "\<not> isWhiteSpace (hd u)"
  shows "paramExamples (pre @ [e, g] @ dot @ '':'' @ ws @ u)
     = Some (takeWhile (\<lambda>c. \<not> isLineTerminator c) u)"
proof -
  let ?cap = "takeWhile (\<lambda>c. \<not> isLineTerminator c) u"
  let ?tail = "g # dot @ '':'' @ ws @ u"
  have dp: "dotPlus u = Some ?cap"
    using assms(7,8) by (rule dotPlus_start)
  have sp: "spacesThenCapture (ws @ u) = Some ?cap"
    using assms(6) dp assms(8) by (intro spacesThenCapture_skip) auto
  have od: "optDotThenColon (dot @ '':'' @ ws @ u) = Some ?cap"
    using assms(5) sp by auto
  have ew: "isWordChar e" using assms(3) by (auto simp: isWordChar_def)
  have wb: "wordBoundary (if pre = [] then None else Some (last pre)) (e # ?tail)"
    using assms(2) ew by (auto simp: wordBoundary_def)
  have "egAt (if pre = [] then None else Some (last pre)) (e # ?tail) = Some ?cap"
    using wb assms(3,4) od by simp
  then have "egExec_from (if pre = [] then None else Some (last pre)) (e # ?tail) = Some ?cap"
    by simp
  moreover have "egExec_from None (pre @ e # ?tail)
     = egExec_from (if pre = [] then None else Some (last pre)) (e # ?tail)"
    using assms(1,3) by (intro egExec_from_skip) auto
  ultimately show ?thesis
    by (simp add: paramExamples_def)
qed

lemma trim_prefix:
  assumes "t \<noteq> []" and "\<not> isWhiteSpace (hd t)" and "\<not> isWhiteSpace (last t)"
  shows "\<exists>r'. trim (t @ r) = t @ r' \<and> prefix r' r"
proof -
  have a: "dropWhile isWhiteSpace (t @ r) = t @ r"
    using assms(1,2) by (cases t) auto
  have "dropWhile isWhiteSpace (rev t) = rev t"
    using assms(1,3) by (cases t rule: rev_cases) auto
  then have b: "dropWhile isWhiteSpace (rev r @ rev t) = dropWhile isWhiteSpace (rev r) @ rev t"
    by (auto simp: dropWhile_append)
  have "r = rev (dropWhile isWhiteSpace (rev r)) @ rev (takeWhile isWhiteSpace (rev r))"
    by (metis rev_append rev_rev_ident takeWhile_dropWhile_id)
  then have "prefix (rev (dropWhile isWhiteSpace (rev r))) r"
    by (metis prefixI)
  with a b show ?thesis by (simp add: trim_def)
qed

lemma prefix_takeWhile_hd:
  assumes "prefix r' (takeWhile P rest)" and "r' \<noteq> []"
  shows "rest \<noteq> [] \<and> hd r' = hd rest"
proof -
  from assms have ne: "takeWhile P rest \<noteq> []" by auto
  then have "hd (takeWhile P rest) = hd rest"
    by (cases rest) (auto split: if_splits)
  moreover from assms have "hd r' = hd (takeWhile P rest)"
    by (auto simp: prefix_def)
  ultimately show ?thesis using ne by auto
qed

lemma regExec_token:
  assumes "t \<noteq> []" and "\<forall>c\<in>set t. \<not> isWhiteSpace c \<and> c \<noteq> CHR '',''"
    and "hd t \<noteq> CHR 0x22" and "hd t \<noteq> CHR 0x27"
    and "r = [] \<or> isWhiteSpace (hd r) \<or> hd r = CHR '',''"
  shows "regExec (t @ r) = Some (Undefined, Undefined, Str t)"
proof -
  from assms(1) obtain c cs where t: "t = c # cs" by (cases t) auto
  have tk: "takeWhile (\<lambda>c. \<not> isWhiteSpace c \<and> c \<noteq> CHR '','') (t @ r) = t"
    using assms(2,5) by (cases r) (auto simp: takeWhile_append2)
  have "regAt (t @ r) = Some (Undefined, Undefined, Str t)"
    using assms(3,4) tk assms(1) unfolding regAt_def token_def
    by (simp add: t)
  then show ?thesis by (simp add: t)
qed

lemma regExec_quoted:
  assumes "q = CHR 0x22 \<or> q = CHR 0x27" and "q \<notin> set v"
  shows "regExec (q # v @ q # r)
     = Some (if q = CHR 0x22 then (Str v, Undefined, Undefined) else (Undefined, Str v, Undefined))"
proof -
  have "takeWhile (\<lambda>d. d \<noteq> q) (v @ q # r) = v" "dropWhile (\<lambda>d. d \<noteq> q) (v @ q # r) = q # r"
    using assms(2) by (simp_all add: takeWhile_append dropWhile_append)
  then have "quoted q (q # v @ q # r) = Some v" by simp
  moreover have "q = CHR 0x27 \<Longrightarrow> quoted (CHR 0x22) (q # v @ q # r) = None" by simp
  ultimately have "regAt (q # v @ q # r)
     = Some (if q = CHR 0x22 then (Str v, Undefined, Undefined) else (Undefined, Str v, Undefined))"
    using assms(1) by (auto simp: regAt_def)
  then show ?thesis by simp
qed

text \<open>An unquoted first candidate \<open>t\<close> after the marker is returned as it is.\<close>

lemma exampleFromDoc_token:
  assumes "CHR '':'' \<notin> set pre" and "pre = [] \<or> \<not> isWordChar (last pre)"
    and "e = CHR ''e'' \<or> e = CHR ''E''" and "g = CHR ''g'' \<or> g = CHR ''G''"
    and "dot = [] \<or> dot = ''.''"
    and "\<forall>c\<in>set ws. isWhiteSpace c"
    and "t \<noteq> []" and "\<forall>c\<in>set t. \<not> isWhiteSpace c \<and> c \<noteq> CHR '',''"
    and "hd t \<noteq> CHR 0x22" and "hd t \<noteq> CHR 0x27"
    and "rest = [] \<or> isWhiteSpace (hd rest) \<or> hd rest = CHR '',''"
  shows "exampleFromDoc (pre @ [e, g] @ dot @ '':'' @ ws @ t @ rest) = Some (Str t)"
proof -
  let ?noLT = "\<lambda>c. \<not> isLineTerminator c"
  have tws: "\<forall>c\<in>set t. \<not> isWhiteSpace c" using assms(8) by auto
  then have tlt: "\<forall>c\<in>set t. ?noLT c" by (auto dest: lineTerminator_whiteSpace)
  have hl: "\<not> isWhiteSpace (hd t)" "\<not> isWhiteSpace (last t)"
    using assms(7) tws by auto
  have "paramExamples (pre @ [e, g] @ dot @ '':'' @ ws @ (t @ rest))
     = Some (takeWhile ?noLT (t @ rest))"
    using assms(1-7) hl(1) by (intro paramExamples_marker) auto
  moreover have "takeWhile ?noLT (t @ rest) = t @ takeWhile ?noLT rest"
    using tlt by (simp add: takeWhile_append2)
  ultimately have pe: "paramExamples (pre @ [e, g] @ dot @ '':'' @ ws @ t @ rest)
     = Some (t @ takeWhile ?noLT rest)" by simp
  from trim_prefix[OF assms(7) hl] obtain r' where
    tr: "trim (t @ takeWhile ?noLT rest) = t @ r'" and pr: "prefix r' (takeWhile ?noLT rest)"
    by blast
  have "r' = [] \<or> isWhiteSpace (hd r') \<or> hd r' = CHR '',''"
    using prefix_takeWhile_hd[OF pr] assms(11) by auto
  from regExec_token[OF assms(7-10) this] tr
  have "regExec (trim (t @ takeWhile ?noLT rest)) = Some (Undefined, Undefined, Str t)"
    by simp
  with pe show ?thesis by (simp add: exampleFromDoc_def js_or_def)
qed

text \<open>A quoted first candidate with the content \<open>v\<close> on one line: the content comes back
  in double quotes when it is not empty, and \<^verbatim>\<open>undefined\<close> comes back when it is empty.\<close>

lemma exampleFromDoc_quoted:
  assumes "CHR '':'' \<notin> set pre" and "pre = [] \<or> \<not> isWordChar (last pre)"
    and "e = CHR ''e'' \<or> e = CHR ''E''" and "g = CHR ''g'' \<or> g = CHR ''G''"
    and "dot = [] \<or> dot = ''.''"
    and "\<forall>c\<in>set ws. isWhiteSpace c"
    and "q = CHR 0x22 \<or> q = CHR 0x27" and "q \<notin> set v"
    and "\<forall>c\<in>set v. \<not> isLineTerminator c"
  shows "exampleFromDoc (pre @ [e, g] @ dot @ '':'' @ ws @ [q] @ v @ [q] @ rest)
     = Some (if v = [] then Undefined else Str ([CHR 0x22] @ v @ [CHR 0x22]))"
proof -
  let ?noLT = "\<lambda>c. \<not> isLineTerminator c"
  let ?t = "q # v @ [q]"
  have qws: "\<not> isWhiteSpace q" using assms(7) by (auto simp: isWhiteSpace_def)
  then have qlt: "?noLT q" by (auto dest: lineTerminator_whiteSpace)
  have "paramExamples (pre @ [e, g] @ dot @ '':'' @ ws @ (?t @ rest))
     = Some (takeWhile ?noLT (?t @ rest))"
    using assms(1-6) qws by (intro paramExamples_marker) auto
  moreover have "takeWhile ?noLT (?t @ rest) = ?t @ takeWhile ?noLT rest"
    using qlt assms(9) by (intro takeWhile_append2) auto
  ultimately have pe: "paramExamples (pre @ [e, g] @ dot @ '':'' @ ws @ [q] @ v @ [q] @ rest)
     = Some (?t @ takeWhile ?noLT rest)" by simp
  from trim_prefix[of ?t "takeWhile ?noLT rest"] qws obtain r' where
    tr: "trim (?t @ takeWhile ?noLT rest) = ?t @ r'" by auto
  have "regExec (q # v @ q # r')
     = Some (if q = CHR 0x22 then (Str v, Undefined, Undefined) else (Undefined, Str v, Undefined))"
    using assms(7,8) by (rule regExec_quoted)
  with tr have "regExec (trim (?t @ takeWhile ?noLT rest))
     = Some (if q = CHR 0x22 then (Str v, Undefined, Undefined) else (Undefined, Str v, Undefined))"
    by simp
  with pe show ?thesis by (auto simp: exampleFromDoc_def js_or_def)
qed

text \<open>
  Claim C5, as stated, takes the colon after \<^verbatim>\<open>eg\<close> to be optional. Both versions of the
  expression in the sources require it: the documentation \<^verbatim>\<open>eg 5\<close> gives no example.
\<close>

theorem example_marker_counterexample:
  "exampleFromDoc ''eg 5'' = None"
  by (simp add: exampleFromDoc_def paramExamples_def wordBoundary_def isWordChar_def)

text \<open>
  Claim C5, amended. The marker is the token \<^verbatim>\<open>eg\<close> in either case, not preceded by a word
  character, followed by an optional period and a mandatory colon. A documentation
  without any colon gives no example. A documentation that consists of a text without
  colon that does not end in a word character, the marker with its colon, optional white
  space, and a first candidate that is not quoted and ends at the end of the text, at
  white space or at a comma, gives that first candidate.
\<close>

theorem example_marker_colon:
  "(CHR '':'' \<notin> set doc \<longrightarrow> exampleFromDoc doc = None)
   \<and> (CHR '':'' \<notin> set pre \<and> (pre = [] \<or> \<not> isWordChar (last pre))
        \<and> (e = CHR ''e'' \<or> e = CHR ''E'') \<and> (g = CHR ''g'' \<or> g = CHR ''G'')
        \<and> (dot = [] \<or> dot = ''.'')
        \<and> (\<forall>c\<in>set ws. isWhiteSpace c)
        \<and> t \<noteq> [] \<and> (\<forall>c\<in>set t. \<not> isWhiteSpace c \<and> c \<noteq> CHR '','')
        \<and> hd t \<noteq> CHR 0x22 \<and> hd t \<noteq> CHR 0x27
        \<and> (rest = [] \<or> isWhiteSpace (hd rest) \<or> hd rest = CHR '','')
      \<longrightarrow> exampleFromDoc (pre @ [e, g] @ dot @ '':'' @ ws @ t @ rest) = Some (Str t))"
  using exampleFromDoc_no_colon[of doc]
    exampleFromDoc_token[of pre e g dot ws t rest]
  by blast

text \<open>\<^verbatim>\<open>the speed, eg 5\<close> gives no example; \<^verbatim>\<open>the speed, Eg.: 5, 6, 7\<close> gives \<open>5\<close>.\<close>

theorem example_marker_colon_witness:
  "exampleFromDoc ''the speed, eg 5'' = None
   \<and> exampleFromDoc ''the speed, Eg.: 5, 6, 7'' = Some (Str ''5'')"
  using example_marker_colon[where doc = "''the speed, eg 5''" and pre = "''the speed, ''"
      and e = "CHR ''E''" and g = "CHR ''g''" and dot = "''.''" and ws = "'' ''"
      and t = "''5''" and rest = "'', 6, 7''"]
  by (simp add: isWhiteSpace_def isWordChar_def)

text \<open>
  Claim C6. A quoted first candidate is claimed to come back as a string literal. The
  code tests the content of the quotes for truth, so the empty content fails the test:
  for the documentation \<^verbatim>\<open>eg: ""\<close> the code returns group 3 of a match that was made by
  the first alternative, which is \<^verbatim>\<open>undefined\<close>, and not the literal \<^verbatim>\<open>""\<close>.
\<close>

theorem example_empty_quoted_undefined:
  "exampleFromDoc (''eg: '' @ [CHR 0x22, CHR 0x22]) = Some Undefined
   \<and> exampleFromDoc (''eg: '' @ [CHR 0x22, CHR 0x22]) \<noteq> Some (Str [CHR 0x22, CHR 0x22])"
  by (simp add: exampleFromDoc_def paramExamples_def wordBoundary_def isWordChar_def
      isWhiteSpace_def isLineTerminator_def dotPlus_def trim_def regAt_def js_or_def)

end
